theory Spec2Isabelle
  imports Main
begin

section \<open>Data model of the webhook responder (main.go, lines 17-71)\<close>

text \<open>
  Each Go struct is a record. A Go field name that occurs in several structs
  (\<open>ID\<close>, \<open>Name\<close>, \<open>Type\<close>, \<open>Assistant\<close>, \<open>Model\<close>) is prefixed with its struct,
  since record fields are global names in HOL. A pointer field (\<open>*string\<close>, \<open>*VAPIPhoneCall\<close>)
  is an \<open>option\<close>: \<open>None\<close> is the nil pointer.
\<close>

record VAPIFunctionArguments =
  Arguments_Assistant :: "string option"

record VAPIFunction =
  Function_Name :: string
  Function_Arguments :: VAPIFunctionArguments

record VAPIToolCall =
  ToolCall_ID :: string
  ToolCall_Type :: string
  ToolCall_Function :: VAPIFunction

record VAPICustomer =
  Customer_Name :: "string option"
  Customer_Number :: "string option"

record VAPIPhoneCall =
  PhoneCall_ID :: string
  PhoneCall_AssistantID :: "string option"

record VAPIWebhookMessage =
  Message_Type :: string
  Message_ToolCalls :: "VAPIToolCall list"
  Message_Call :: "VAPIPhoneCall option"
  Message_Customer :: "VAPICustomer option"

record VAPIWebhookPayload =
  Payload_Message :: VAPIWebhookMessage

text \<open>
  A value of Go's \<open>interface{}\<close> as the two configuration templates build it: a string,
  a slice, or a \<open>map[string]interface{}\<close> written as the list of its key/value pairs in
  the order of the map literal (a Go map literal has no duplicate keys).
\<close>

datatype gvalue =
  GString string
| GList "gvalue list"
| GMap "(string \<times> gvalue) list"

type_synonym gmap = "(string \<times> gvalue) list"

record VAPIAssistant =
  Assistant_Name :: string
  Assistant_Model :: gmap
  Assistant_Voice :: gmap
  Assistant_Transcriber :: gmap
  Assistant_FirstMessage :: "string option"
  Assistant_FirstMessageMode :: "string option"

record RequestAssistantResponse =
  Response_Assistant :: "VAPIAssistant option"

subsection \<open>The text-generation collaborator (package go-openai, as main.go uses it)\<close>

record ChatCompletionMessage =
  Msg_Role :: string
  Msg_Content :: string

record ChatCompletionRequest =
  Request_Model :: string
  Request_Messages :: "ChatCompletionMessage list"

record ChatCompletionChoice =
  Choice_Message :: ChatCompletionMessage

record ChatCompletionResponse =
  Completion_Choices :: "ChatCompletionChoice list"

definition ChatMessageRoleSystem :: string where
  "ChatMessageRoleSystem = ''system''"

definition ChatMessageRoleUser :: string where
  "ChatMessageRoleUser = ''user''"

text \<open>
  \<open>oai.CreateChatCompletion\<close> returns a response together with an error value
  (\<open>None\<close> is Go's \<open>nil\<close> error). The client is a parameter of the model: every
  theorem holds for whatever the collaborator answers.
\<close>

type_synonym oai_client = "ChatCompletionRequest \<Rightarrow> ChatCompletionResponse \<times> string option"

subsection \<open>Process state, panics, HTTP responses\<close>

text \<open>
  The global map \<open>phoneToAssistantCache\<close> (line 75) and, as the observable effect of the
  collaborator calls, the requests sent to it so far, oldest first.
\<close>

record world =
  phoneToAssistantCache :: "string \<rightharpoonup> string"
  oaiRequests :: "ChatCompletionRequest list"

datatype panic = IndexOutOfRange | NilPointerDereference

text \<open>
  What the handler sends through the Fiber context: \<open>c.SendStatus(n)\<close>, or \<open>c.JSON(v)\<close>
  for one of the two values the handler serialises. \<open>c.JSON\<close> leaves the status at
  Fiber's default, 200.
\<close>

datatype response =
  SendStatus nat
| JSONAssistant RequestAssistantResponse
| JSONMap gmap

fun statusCode :: "response \<Rightarrow> nat" where
  "statusCode (SendStatus n) = n"
| "statusCode (JSONAssistant r) = 200"
| "statusCode (JSONMap m) = 200"

text \<open>The entries under the key \<open>results\<close> of a response body; none when there is no such key.\<close>

fun resultEntries :: "response \<Rightarrow> gvalue list" where
  "resultEntries (JSONMap m) =
     (case map_of m ''results'' of Some (GList es) \<Rightarrow> es | Some (GString s) \<Rightarrow> []
      | Some (GMap kv) \<Rightarrow> [] | None \<Rightarrow> [])"
| "resultEntries (SendStatus n) = []"
| "resultEntries (JSONAssistant r) = []"

section \<open>AssistantCache: the Go map operations (lines 80 and 264)\<close>

definition cacheGet :: "(string \<rightharpoonup> string) \<Rightarrow> string \<Rightarrow> string option" where
  \<comment> \<open>\<open>description, exists := phoneToAssistantCache[k]\<close>\<close>
  "cacheGet m k = m k"

definition cachePut :: "(string \<rightharpoonup> string) \<Rightarrow> string \<Rightarrow> string \<Rightarrow> (string \<rightharpoonup> string)" where
  \<comment> \<open>\<open>phoneToAssistantCache[k] = v\<close>\<close>
  "cachePut m k v = m(k \<mapsto> v)"

section \<open>AssistantProvisioner (lines 78-205)\<close>

text \<open>
  The prompt of line 160: a raw string literal spanning three source lines, the second
  and third indented by one tab, with \<open>%s\<close> replaced by the phone number.
\<close>

definition initialPrompt :: "string \<Rightarrow> string" where
  "initialPrompt phoneNumber =
     ''You are a helpful assistant. Greet the caller and ask how you can help them today. They will tell you an agent that they want to speak to.''
     @ [CHR 0x0A, CHR 0x09]
     @ ''After the createAssistant tool call is successful, transfer the caller to ''
     @ phoneNumber
     @ ''. Don't transfer the call until the createAssistant tool call is successful.''
     @ [CHR 0x0A, CHR 0x09]"

definition createInitialAssistant :: "string \<Rightarrow> VAPIAssistant" where
  "createInitialAssistant phoneNumber =
     \<lparr> Assistant_Name = ''AssistantGenerator'',
       Assistant_Model =
         [ (''model'', GString ''gpt-4o-mini''),
           (''provider'', GString ''openai''),
           (''messages'', GList [GMap [ (''role'', GString ''system''),
                                        (''content'', GString (initialPrompt phoneNumber)) ]]),
           (''toolIds'', GList [GString ''d137092e-0250-4151-abf0-205ff2b0a438'']),
           (''tools'', GList [GMap [ (''type'', GString ''transferCall''),
                                     (''destinations'', GList [GMap [ (''type'', GString ''number''),
                                                                      (''number'', GString phoneNumber) ]]) ]]) ],
       Assistant_Voice =
         [ (''model'', GString ''sonic-english''),
           (''voiceId'', GString ''248be419-c632-4f23-adf1-5324ed7dbf1d''),
           (''provider'', GString ''cartesia'') ],
       Assistant_Transcriber =
         [ (''model'', GString ''general''),
           (''language'', GString ''en''),
           (''provider'', GString ''deepgram'') ],
       Assistant_FirstMessage = Some ''Hello! How can I assist you today?'',
       Assistant_FirstMessageMode = Some ''assistant-speaks-first'' \<rparr>"

text \<open>The two turns of lines 84-93.\<close>

definition oaiMessages :: "string \<Rightarrow> ChatCompletionMessage list" where
  "oaiMessages description =
     [ \<lparr> Msg_Role = ChatMessageRoleSystem,
         Msg_Content = ''You are a prompt engineer. Generate a system prompt for an AI assistant based on this description. The prompt should be concise and clear.'' \<rparr>,
       \<lparr> Msg_Role = ChatMessageRoleUser,
         Msg_Content = description \<rparr> ]"

text \<open>
  The text appended to the generated prompt (lines 108-112): the raw string literal
  starts with a line break, every line is indented by two tabs, and \<open>%s\<close> is replaced by
  the return number.
\<close>

definition transferInstructions :: "string \<Rightarrow> string" where
  "transferInstructions vapiPhoneNumber =
     [CHR 0x0A, CHR 0x09, CHR 0x09]
     @ ''For your first message, introduce yourself and state your purpose. Be concise and clear.''
     @ [CHR 0x0A, CHR 0x09, CHR 0x09]
     @ ''Then, the caller will describe an assistant that they want to speak to. Call the createAssistant tool with the description.''
     @ [CHR 0x0A, CHR 0x09, CHR 0x09]
     @ ''After the createAssistant tool call is successful, transfer the caller to ''
     @ vapiPhoneNumber
     @ ''.''
     @ [CHR 0x0A, CHR 0x09, CHR 0x09]"

text \<open>
  \<open>getOrCreateAssistant\<close>. After the collaborator has answered, line 100 prints
  \<open>response.Choices[0].Message.Content\<close>, before the error is looked at in line 102:
  indexing an empty \<open>Choices\<close> panics, whatever the error value is.
\<close>

definition getOrCreateAssistant ::
  "oai_client \<Rightarrow> string \<Rightarrow> string \<Rightarrow> world \<Rightarrow> (panic + VAPIAssistant) \<times> world" where
  "getOrCreateAssistant oai callerPhoneNumber vapiPhoneNumber w =
     (case cacheGet (phoneToAssistantCache w) callerPhoneNumber of
        Some description \<Rightarrow>
          (let request = \<lparr> Request_Model = ''gpt-4o-mini'',
                           Request_Messages = oaiMessages description \<rparr>;
               (response, err) = oai request;
               w' = w\<lparr> oaiRequests := oaiRequests w @ [request] \<rparr>
           in case Completion_Choices response of
                [] \<Rightarrow> (Inl IndexOutOfRange, w')
              | choice # others \<Rightarrow>
                  (case err of
                     Some e \<Rightarrow> (Inr (createInitialAssistant vapiPhoneNumber), w')
                   | None \<Rightarrow>
                       (let prompt = Msg_Content (Choice_Message choice)
                                       @ transferInstructions vapiPhoneNumber
                        in (Inr \<lparr> Assistant_Name = ''CustomAssistant'',
                                  Assistant_Model =
                                    [ (''model'', GString ''gpt-4o-mini''),
                                      (''provider'', GString ''openai''),
                                      (''messages'', GList [GMap [ (''role'', GString ''system''),
                                                                   (''content'', GString prompt) ]]),
                                      (''toolIds'', GList [GString ''d137092e-0250-4151-abf0-205ff2b0a438'']),
                                      (''tools'', GList [GMap [ (''type'', GString ''transferCall''),
                                                                (''destinations'', GList [GMap [ (''type'', GString ''number''),
                                                                                                 (''number'', GString vapiPhoneNumber) ]]) ]]) ],
                                  Assistant_Voice =
                                    [ (''model'', GString ''sonic-english''),
                                      (''voiceId'', GString ''248be419-c632-4f23-adf1-5324ed7dbf1d''),
                                      (''provider'', GString ''cartesia'') ],
                                  Assistant_Transcriber =
                                    [ (''model'', GString ''general''),
                                      (''language'', GString ''en''),
                                      (''provider'', GString ''deepgram'') ],
                                  Assistant_FirstMessage = None,
                                  Assistant_FirstMessageMode =
                                    Some ''assistant-speaks-first-with-model-generated-message'' \<rparr>,
                            w'))))
      | None \<Rightarrow> (Inr (createInitialAssistant vapiPhoneNumber), w))"

section \<open>The webhook handler (lines 208-281)\<close>

text \<open>
  The loop over \<open>payload.Message.ToolCalls\<close> (lines 244-277). \<open>Some r\<close> is the
  \<open>return c.JSON(...)\<close> of line 268, which leaves the handler; \<open>None\<close> is the loop
  running to its end. A \<open>break\<close> inside the \<open>switch\<close> leaves the \<open>switch\<close> only, so the
  loop goes on with the next tool call; so does a function name other than
  \<open>createAssistant\<close>.
\<close>

fun toolCallsLoop ::
  "VAPICustomer option \<Rightarrow> VAPIToolCall list \<Rightarrow> world \<Rightarrow> response option \<times> world" where
  "toolCallsLoop customer [] w = (None, w)"
| "toolCallsLoop customer (toolCall # rest) w =
     (if Function_Name (ToolCall_Function toolCall) = ''createAssistant'' then
        (case customer of
           None \<Rightarrow> toolCallsLoop customer rest w
         | Some c \<Rightarrow>
             (case Customer_Number c of
                None \<Rightarrow> toolCallsLoop customer rest w
              | Some phoneNumber \<Rightarrow>
                  (case Arguments_Assistant (Function_Arguments (ToolCall_Function toolCall)) of
                     None \<Rightarrow> toolCallsLoop customer rest w
                   | Some assistantDesc \<Rightarrow>
                       (Some (JSONMap
                          [ (''results'',
                             GList [GMap [ (''toolCallId'', GString (ToolCall_ID toolCall)),
                                           (''result'', GString ''Assistant created successfully'') ]]) ]),
                        w\<lparr> phoneToAssistantCache :=
                             cachePut (phoneToAssistantCache w) phoneNumber assistantDesc \<rparr>))))
      else toolCallsLoop customer rest w)"

text \<open>
  \<open>handleVAPIWebhook\<close>. The arguments are the collaborator, the environment variable
  \<open>VAPI_PHONE_NUMBER\<close>, and what \<open>c.BodyParser\<close> made of the request body (\<open>None\<close> when it
  returned an error). Line 226 reads \<open>payload.Message.Call.ID\<close> through the pointer
  \<open>Call\<close>, which panics when the pointer is nil.
\<close>

definition handleVAPIWebhook ::
  "oai_client \<Rightarrow> string \<Rightarrow> VAPIWebhookPayload option \<Rightarrow> world \<Rightarrow> (panic + response) \<times> world" where
  "handleVAPIWebhook oai vapiPhoneNumber parsed w =
     (case parsed of
        None \<Rightarrow> (Inr (SendStatus 400), w)
      | Some payload \<Rightarrow>
          (let message = Payload_Message payload in
           if Message_Type message = ''assistant-request'' then
             (let phoneNumber =
                    (case Message_Customer message of
                       None \<Rightarrow> ''''
                     | Some c \<Rightarrow> (case Customer_Number c of None \<Rightarrow> '''' | Some n \<Rightarrow> n))
              in case Message_Call message of
                   None \<Rightarrow> (Inl NilPointerDereference, w)
                 | Some call \<Rightarrow>
                     (case getOrCreateAssistant oai phoneNumber vapiPhoneNumber w of
                        (Inl p, w') \<Rightarrow> (Inl p, w')
                      | (Inr assistant, w') \<Rightarrow>
                          (Inr (JSONAssistant \<lparr> Response_Assistant = Some assistant \<rparr>), w')))
           else if Message_Type message = ''tool-calls'' then
             (case toolCallsLoop (Message_Customer message) (Message_ToolCalls message) w of
                (Some r, w') \<Rightarrow> (Inr r, w')
              | (None, w') \<Rightarrow> (Inr (SendStatus 200), w'))
           else (Inr (SendStatus 200), w)))"

section \<open>Initial state and stand-ins for the collaborator\<close>

text \<open>The state at process start: \<open>make(map[string]string)\<close> of line 75, no request sent.\<close>

definition emptyWorld :: world where
  "emptyWorld = \<lparr> phoneToAssistantCache = Map.empty, oaiRequests = [] \<rparr>"

text \<open>
  A collaborator that fails the way the go-openai client reports a transport or HTTP
  error: the zero-valued response (no choices) and a non-nil error.
\<close>

definition failedCompletion :: oai_client where
  "failedCompletion request = (\<lparr> Completion_Choices = [] \<rparr>, Some ''status code: 500'')"

text \<open>A collaborator that answers every request with one choice carrying the given text.\<close>

definition cannedCompletion :: "string \<Rightarrow> oai_client" where
  "cannedCompletion generated request =
     (\<lparr> Completion_Choices =
          [\<lparr> Choice_Message = \<lparr> Msg_Role = ''assistant'', Msg_Content = generated \<rparr> \<rparr>] \<rparr>,
      None)"

section \<open>Example events\<close>

text \<open>A \<open>createAssistant\<close> tool call with the given id and \<open>assistant\<close> argument.\<close>

definition createAssistantCall :: "string \<Rightarrow> string option \<Rightarrow> VAPIToolCall" where
  "createAssistantCall callId description =
     \<lparr> ToolCall_ID = callId, ToolCall_Type = ''function'',
       ToolCall_Function =
         \<lparr> Function_Name = ''createAssistant'',
           Function_Arguments = \<lparr> Arguments_Assistant = description \<rparr> \<rparr> \<rparr>"

text \<open>A \<open>tool-calls\<close> event with a customer record, its number as given, and the given calls.\<close>

definition toolCallsEvent :: "string option \<Rightarrow> VAPIToolCall list \<Rightarrow> VAPIWebhookPayload" where
  "toolCallsEvent number calls =
     \<lparr> Payload_Message =
         \<lparr> Message_Type = ''tool-calls'', Message_ToolCalls = calls, Message_Call = None,
           Message_Customer = Some \<lparr> Customer_Name = None, Customer_Number = number \<rparr> \<rparr> \<rparr>"

section \<open>Resolving a caller without a cache entry\<close>

text \<open>
  Claim C3. For every caller identity with no entry in the cache, \<open>getOrCreateAssistant\<close>
  returns the Generator configuration built by \<open>createInitialAssistant\<close> and leaves the
  state as it was; that configuration is named \<open>AssistantGenerator\<close>, its first message
  is the fixed greeting and its first-message mode is \<open>assistant-speaks-first\<close>.
\<close>

theorem resolve_no_entry_generator:
  assumes "phoneToAssistantCache w callerPhoneNumber = None"
  shows "getOrCreateAssistant oai callerPhoneNumber vapiPhoneNumber w
           = (Inr (createInitialAssistant vapiPhoneNumber), w)
         \<and> Assistant_Name (createInitialAssistant vapiPhoneNumber) = ''AssistantGenerator''
         \<and> Assistant_FirstMessage (createInitialAssistant vapiPhoneNumber)
             = Some ''Hello! How can I assist you today?''
         \<and> Assistant_FirstMessageMode (createInitialAssistant vapiPhoneNumber)
             = Some ''assistant-speaks-first''"
  using assms by (simp add: getOrCreateAssistant_def cacheGet_def createInitialAssistant_def)

theorem resolve_no_entry_generator_witness:
  "phoneToAssistantCache emptyWorld ''+15551230000'' = None
   \<and> getOrCreateAssistant failedCompletion ''+15551230000'' ''+15550009999'' emptyWorld
       = (Inr (createInitialAssistant ''+15550009999''), emptyWorld)
   \<and> Assistant_FirstMessage (createInitialAssistant ''+15550009999'')
       = Some ''Hello! How can I assist you today?''"
  using resolve_no_entry_generator
          [of emptyWorld "''+15551230000''" failedCompletion "''+15550009999''"]
  by (simp add: emptyWorld_def)

section \<open>Resolving a caller with a cache entry\<close>

text \<open>
  Claim C4. For every caller identity with a cache entry, \<open>getOrCreateAssistant\<close> sends
  exactly one request to the text-generation collaborator: the requests sent afterwards
  are those sent before followed by a single new one, whose messages are the system turn
  with the fixed prompt-engineer instruction and the user turn with the cached description
  as it is. This holds whatever the collaborator answers.
\<close>

theorem resolve_entry_one_collaborator_call:
  assumes "phoneToAssistantCache w callerPhoneNumber = Some description"
  shows "oaiRequests (snd (getOrCreateAssistant oai callerPhoneNumber vapiPhoneNumber w))
           = oaiRequests w @
             [\<lparr> Request_Model = ''gpt-4o-mini'',
                Request_Messages =
                  [ \<lparr> Msg_Role = ''system'',
                      Msg_Content = ''You are a prompt engineer. Generate a system prompt for an AI assistant based on this description. The prompt should be concise and clear.'' \<rparr>,
                    \<lparr> Msg_Role = ''user'', Msg_Content = description \<rparr> ] \<rparr>]"
  using assms
  by (simp add: getOrCreateAssistant_def cacheGet_def oaiMessages_def Let_def
        ChatMessageRoleSystem_def ChatMessageRoleUser_def
      split: prod.splits list.splits option.splits)

theorem resolve_entry_one_collaborator_call_witness:
  "phoneToAssistantCache
     (emptyWorld\<lparr> phoneToAssistantCache :=
                    cachePut (phoneToAssistantCache emptyWorld) ''+15551230000'' ''a pirate'' \<rparr>)
     ''+15551230000'' = Some ''a pirate''
   \<and> oaiRequests (snd (getOrCreateAssistant (cannedCompletion ''You are a pirate.'')
        ''+15551230000'' ''+15550009999''
        (emptyWorld\<lparr> phoneToAssistantCache :=
                       cachePut (phoneToAssistantCache emptyWorld) ''+15551230000'' ''a pirate'' \<rparr>)))
       = [\<lparr> Request_Model = ''gpt-4o-mini'',
            Request_Messages =
              [ \<lparr> Msg_Role = ''system'',
                  Msg_Content = ''You are a prompt engineer. Generate a system prompt for an AI assistant based on this description. The prompt should be concise and clear.'' \<rparr>,
                \<lparr> Msg_Role = ''user'', Msg_Content = ''a pirate'' \<rparr> ] \<rparr>]"
  using resolve_entry_one_collaborator_call
          [of "emptyWorld\<lparr> phoneToAssistantCache :=
                    cachePut (phoneToAssistantCache emptyWorld) ''+15551230000'' ''a pirate'' \<rparr>"
              "''+15551230000''" "''a pirate''" "cannedCompletion ''You are a pirate.''"
              "''+15550009999''"]
  by (simp add: emptyWorld_def cachePut_def)



text \<open>
  Claim C6. Every configuration that \<open>getOrCreateAssistant\<close> returns, for any caller, any
  cache and any answer of the collaborator, has under \<open>tools\<close> exactly one tool, of type
  \<open>transferCall\<close>, with exactly one destination, whose number is the return number passed
  to \<open>getOrCreateAssistant\<close>.
\<close>

theorem resolve_transfer_destination:
  assumes "getOrCreateAssistant oai callerPhoneNumber vapiPhoneNumber w = (Inr a, w')"
  shows "map_of (Assistant_Model a) ''tools''
           = Some (GList [GMap [ (''type'', GString ''transferCall''),
                                 (''destinations'',
                                  GList [GMap [ (''type'', GString ''number''),
                                                (''number'', GString vapiPhoneNumber) ]]) ]])"
  using assms
  by (auto simp add: getOrCreateAssistant_def cacheGet_def Let_def createInitialAssistant_def
      split: option.splits prod.splits list.splits)

theorem resolve_transfer_destination_witness:
  "getOrCreateAssistant (cannedCompletion ''You are a pirate.'') ''+15551230000'' ''+15550009999''
     (emptyWorld\<lparr> phoneToAssistantCache :=
                    cachePut (phoneToAssistantCache emptyWorld) ''+15551230000'' ''a pirate'' \<rparr>)
     = (Inr (projr (fst (getOrCreateAssistant (cannedCompletion ''You are a pirate.'')
                ''+15551230000'' ''+15550009999''
                (emptyWorld\<lparr> phoneToAssistantCache :=
                    cachePut (phoneToAssistantCache emptyWorld) ''+15551230000'' ''a pirate'' \<rparr>)))),
        snd (getOrCreateAssistant (cannedCompletion ''You are a pirate.'')
                ''+15551230000'' ''+15550009999''
                (emptyWorld\<lparr> phoneToAssistantCache :=
                    cachePut (phoneToAssistantCache emptyWorld) ''+15551230000'' ''a pirate'' \<rparr>)))
   \<and> Assistant_Name (projr (fst (getOrCreateAssistant (cannedCompletion ''You are a pirate.'')
                ''+15551230000'' ''+15550009999''
                (emptyWorld\<lparr> phoneToAssistantCache :=
                    cachePut (phoneToAssistantCache emptyWorld) ''+15551230000'' ''a pirate'' \<rparr>))))
       = ''CustomAssistant''
   \<and> map_of (Assistant_Model (projr (fst (getOrCreateAssistant (cannedCompletion ''You are a pirate.'')
                ''+15551230000'' ''+15550009999''
                (emptyWorld\<lparr> phoneToAssistantCache :=
                    cachePut (phoneToAssistantCache emptyWorld) ''+15551230000'' ''a pirate'' \<rparr>)))))
        ''tools''
       = Some (GList [GMap [ (''type'', GString ''transferCall''),
                             (''destinations'',
                              GList [GMap [ (''type'', GString ''number''),
                                            (''number'', GString ''+15550009999'') ]]) ]])"
proof -
  have run: "getOrCreateAssistant (cannedCompletion ''You are a pirate.'') ''+15551230000'' ''+15550009999''
     (emptyWorld\<lparr> phoneToAssistantCache :=
                    cachePut (phoneToAssistantCache emptyWorld) ''+15551230000'' ''a pirate'' \<rparr>)
     = (Inr (projr (fst (getOrCreateAssistant (cannedCompletion ''You are a pirate.'')
                ''+15551230000'' ''+15550009999''
                (emptyWorld\<lparr> phoneToAssistantCache :=
                    cachePut (phoneToAssistantCache emptyWorld) ''+15551230000'' ''a pirate'' \<rparr>)))),
        snd (getOrCreateAssistant (cannedCompletion ''You are a pirate.'')
                ''+15551230000'' ''+15550009999''
                (emptyWorld\<lparr> phoneToAssistantCache :=
                    cachePut (phoneToAssistantCache emptyWorld) ''+15551230000'' ''a pirate'' \<rparr>)))"
    by (simp add: getOrCreateAssistant_def cacheGet_def cachePut_def emptyWorld_def
          cannedCompletion_def Let_def)
  have name: "Assistant_Name (projr (fst (getOrCreateAssistant (cannedCompletion ''You are a pirate.'')
                ''+15551230000'' ''+15550009999''
                (emptyWorld\<lparr> phoneToAssistantCache :=
                    cachePut (phoneToAssistantCache emptyWorld) ''+15551230000'' ''a pirate'' \<rparr>))))
       = ''CustomAssistant''"
    by (simp add: getOrCreateAssistant_def cacheGet_def cachePut_def emptyWorld_def
          cannedCompletion_def Let_def)
  show ?thesis
    using run name resolve_transfer_destination [OF run] by simp
qed

section \<open>The collaborator failing\<close>

text \<open>
  What \<open>getOrCreateAssistant\<close> does with an answer that is not a success depends on the
  choices of the response alone: without a choice it panics at line 100, error or not;
  with a choice and an error it returns the Generator configuration.
\<close>

lemma resolve_no_choice_panics:
  assumes "phoneToAssistantCache w callerPhoneNumber = Some description"
      and "oai \<lparr> Request_Model = ''gpt-4o-mini'', Request_Messages = oaiMessages description \<rparr>
             = (response, err)"
      and "Completion_Choices response = []"
  shows "fst (getOrCreateAssistant oai callerPhoneNumber vapiPhoneNumber w) = Inl IndexOutOfRange"
  using assms
  by (simp add: getOrCreateAssistant_def cacheGet_def Let_def)

lemma resolve_error_with_choice_falls_back:
  assumes "phoneToAssistantCache w callerPhoneNumber = Some description"
      and "oai \<lparr> Request_Model = ''gpt-4o-mini'', Request_Messages = oaiMessages description \<rparr>
             = (response, Some e)"
      and "Completion_Choices response = choice # others"
  shows "fst (getOrCreateAssistant oai callerPhoneNumber vapiPhoneNumber w)
           = Inr (createInitialAssistant vapiPhoneNumber)"
  using assms
  by (simp add: getOrCreateAssistant_def cacheGet_def Let_def)

text \<open>
  Claim C1. With a cache entry for the caller and a collaborator that fails as the client
  library does (an error and a response without choices), \<open>getOrCreateAssistant\<close> does
  not return the Generator configuration of the no-entry case: it panics with an index out
  of range, since line 100 reads \<open>response.Choices[0]\<close> before line 102 tests the error.
\<close>

theorem collaborator_failure_panics:
  "failedCompletion \<lparr> Request_Model = ''gpt-4o-mini'', Request_Messages = oaiMessages ''a pirate'' \<rparr>
     = (\<lparr> Completion_Choices = [] \<rparr>, Some ''status code: 500'')
   \<and> fst (getOrCreateAssistant failedCompletion ''+15551230000'' ''+15550009999''
        (emptyWorld\<lparr> phoneToAssistantCache :=
                       cachePut (phoneToAssistantCache emptyWorld) ''+15551230000'' ''a pirate'' \<rparr>))
       = Inl IndexOutOfRange
   \<and> fst (getOrCreateAssistant failedCompletion ''+15551230000'' ''+15550009999'' emptyWorld)
       = Inr (createInitialAssistant ''+15550009999'')"
  by (simp add: getOrCreateAssistant_def cacheGet_def cachePut_def emptyWorld_def
        failedCompletion_def Let_def)

section \<open>AssistantCache\<close>

text \<open>
  Claim C9. For every identity \<open>i\<close>, the empty string included, and every description,
  a write followed by a read of \<open>i\<close> gives the description written, and after two writes
  under \<open>i\<close> the read gives the second; the same holds when the writes are those of the
  handler on \<open>createAssistant\<close> events (line 264) and the read is that of line 80.
\<close>

theorem cache_put_then_get:
  "cacheGet (cachePut m i d) i = Some d
   \<and> cacheGet (cachePut (cachePut m i d1) i d2) i = Some d2
   \<and> cacheGet (cachePut m '''' d) '''' = Some d
   \<and> cacheGet (phoneToAssistantCache (snd (handleVAPIWebhook oai vapiPhoneNumber
        (Some (toolCallsEvent (Some i) [createAssistantCall callId (Some d)])) w))) i = Some d
   \<and> cacheGet (phoneToAssistantCache (snd (handleVAPIWebhook oai vapiPhoneNumber
        (Some (toolCallsEvent (Some i) [createAssistantCall callId2 (Some d2)]))
        (snd (handleVAPIWebhook oai vapiPhoneNumber
           (Some (toolCallsEvent (Some i) [createAssistantCall callId1 (Some d1)])) w))))) i
       = Some d2"
  by (simp add: cacheGet_def cachePut_def handleVAPIWebhook_def toolCallsEvent_def
        createAssistantCall_def)

section \<open>The handler on tool-calls events\<close>

text \<open>
  The loop in closed form: without a customer number it does nothing; with one, it acts on
  the first \<open>createAssistant\<close> call that has an \<open>assistant\<close> argument, if there is one.
\<close>

lemma toolCallsLoop_find:
  "toolCallsLoop customer tcs w =
     (case Option.bind customer Customer_Number of
        None \<Rightarrow> (None, w)
      | Some phoneNumber \<Rightarrow>
          (case find (\<lambda>t. Function_Name (ToolCall_Function t) = ''createAssistant''
                          \<and> Arguments_Assistant (Function_Arguments (ToolCall_Function t)) \<noteq> None) tcs of
             None \<Rightarrow> (None, w)
           | Some t \<Rightarrow>
               (Some (JSONMap
                  [ (''results'',
                     GList [GMap [ (''toolCallId'', GString (ToolCall_ID t)),
                                   (''result'', GString ''Assistant created successfully'') ]]) ]),
                w\<lparr> phoneToAssistantCache :=
                     cachePut (phoneToAssistantCache w) phoneNumber
                       (the (Arguments_Assistant (Function_Arguments (ToolCall_Function t)))) \<rparr>)))"
  by (induction tcs) (auto split: option.splits)

lemma find_first_match:
  "\<forall>t \<in> set before. \<not> P t \<Longrightarrow> P x \<Longrightarrow> find P (before @ x # after) = Some x"
  by (induction before) auto



text \<open>
  Claim C8, as amended. For every \<open>tool-calls\<close> event whose customer number is absent, or
  in which no \<open>createAssistant\<close> call has an \<open>assistant\<close> argument, the handler leaves the
  state unchanged and answers with status 200 and no result entry.
\<close>

theorem missing_fields_no_write_no_entry:
  assumes "Message_Type (Payload_Message payload) = ''tool-calls''"
      and "Option.bind (Message_Customer (Payload_Message payload)) Customer_Number = None
           \<or> (\<forall>t \<in> set (Message_ToolCalls (Payload_Message payload)).
                 Function_Name (ToolCall_Function t) = ''createAssistant''
                 \<longrightarrow> Arguments_Assistant (Function_Arguments (ToolCall_Function t)) = None)"
  shows "handleVAPIWebhook oai vapiPhoneNumber (Some payload) w = (Inr (SendStatus 200), w)
         \<and> statusCode (SendStatus 200) = 200
         \<and> resultEntries (SendStatus 200) = []"
proof -
  have "toolCallsLoop (Message_Customer (Payload_Message payload))
          (Message_ToolCalls (Payload_Message payload)) w = (None, w)"
    using assms(2)
  proof
    assume "Option.bind (Message_Customer (Payload_Message payload)) Customer_Number = None"
    then show ?thesis
      by (simp add: toolCallsLoop_find)
  next
    assume "\<forall>t \<in> set (Message_ToolCalls (Payload_Message payload)).
              Function_Name (ToolCall_Function t) = ''createAssistant''
              \<longrightarrow> Arguments_Assistant (Function_Arguments (ToolCall_Function t)) = None"
    then have "find (\<lambda>t. Function_Name (ToolCall_Function t) = ''createAssistant''
                         \<and> Arguments_Assistant (Function_Arguments (ToolCall_Function t)) \<noteq> None)
                 (Message_ToolCalls (Payload_Message payload)) = None"
      by (simp add: find_None_iff)
    then show ?thesis
      by (simp add: toolCallsLoop_find split: option.splits)
  qed
  with assms(1) show ?thesis
    by (simp add: handleVAPIWebhook_def Let_def)
qed

theorem missing_fields_no_write_no_entry_witness:
  "handleVAPIWebhook failedCompletion ''+15550009999''
     (Some (toolCallsEvent None [createAssistantCall ''call_1'' (Some ''a pirate'')]))
     emptyWorld = (Inr (SendStatus 200), emptyWorld)
   \<and> handleVAPIWebhook failedCompletion ''+15550009999''
     (Some (toolCallsEvent (Some ''+15551230000'') [createAssistantCall ''call_1'' None]))
     emptyWorld = (Inr (SendStatus 200), emptyWorld)"
  using missing_fields_no_write_no_entry
          [of "toolCallsEvent None [createAssistantCall ''call_1'' (Some ''a pirate'')]"
              failedCompletion "''+15550009999''" emptyWorld]
        missing_fields_no_write_no_entry
          [of "toolCallsEvent (Some ''+15551230000'') [createAssistantCall ''call_1'' None]"
              failedCompletion "''+15550009999''" emptyWorld]
  by (simp add: toolCallsEvent_def createAssistantCall_def)

text \<open>
  Claim C8 as first stated fails for an event that carries a \<open>createAssistant\<close> call
  without the argument followed by one with it: the \<open>break\<close> of line 258 leaves the
  \<open>switch\<close>, the loop goes on, and the second call is cached and acknowledged.
\<close>

theorem missing_argument_counterexample:
  "Function_Name (ToolCall_Function (createAssistantCall ''call_1'' None)) = ''createAssistant''
   \<and> Arguments_Assistant (Function_Arguments (ToolCall_Function (createAssistantCall ''call_1'' None))) = None
   \<and> phoneToAssistantCache emptyWorld ''+15551230000'' = None
   \<and> phoneToAssistantCache
        (snd (handleVAPIWebhook failedCompletion ''+15550009999''
           (Some (toolCallsEvent (Some ''+15551230000'')
              [createAssistantCall ''call_1'' None, createAssistantCall ''call_2'' (Some ''a pirate'')]))
           emptyWorld)) ''+15551230000'' = Some ''a pirate''
   \<and> fst (handleVAPIWebhook failedCompletion ''+15550009999''
           (Some (toolCallsEvent (Some ''+15551230000'')
              [createAssistantCall ''call_1'' None, createAssistantCall ''call_2'' (Some ''a pirate'')]))
           emptyWorld)
       = Inr (JSONMap
           [ (''results'',
              GList [GMap [ (''toolCallId'', GString ''call_2''),
                            (''result'', GString ''Assistant created successfully'') ]]) ])
   \<and> resultEntries (JSONMap
           [ (''results'',
              GList [GMap [ (''toolCallId'', GString ''call_2''),
                            (''result'', GString ''Assistant created successfully'') ]]) ])
       = [GMap [ (''toolCallId'', GString ''call_2''),
                 (''result'', GString ''Assistant created successfully'') ]]"
  by (simp add: handleVAPIWebhook_def toolCallsEvent_def createAssistantCall_def emptyWorld_def
        cachePut_def)

text \<open>
  Claim C10. In a \<open>tool-calls\<close> event with a customer number, let a \<open>createAssistant\<close> call
  with an \<open>assistant\<close> argument be preceded only by calls that are not of this kind. Then the
  handler writes that call's description, acknowledges that call alone, and its result is
  the one it gives for the event cut off after that call: no later call is run or
  acknowledged.
\<close>

theorem first_complete_call_only:
  assumes "Message_Type (Payload_Message payload) = ''tool-calls''"
      and "Message_Customer (Payload_Message payload) = Some customer"
      and "Customer_Number customer = Some phoneNumber"
      and "Message_ToolCalls (Payload_Message payload) = before @ toolCall # after"
      and "\<forall>t \<in> set before.
             \<not> (Function_Name (ToolCall_Function t) = ''createAssistant''
                \<and> Arguments_Assistant (Function_Arguments (ToolCall_Function t)) \<noteq> None)"
      and "Function_Name (ToolCall_Function toolCall) = ''createAssistant''"
      and "Arguments_Assistant (Function_Arguments (ToolCall_Function toolCall)) = Some assistantDesc"
  shows "handleVAPIWebhook oai vapiPhoneNumber (Some payload) w
           = (Inr (JSONMap
                [ (''results'',
                   GList [GMap [ (''toolCallId'', GString (ToolCall_ID toolCall)),
                                 (''result'', GString ''Assistant created successfully'') ]]) ]),
              w\<lparr> phoneToAssistantCache := (phoneToAssistantCache w)(phoneNumber \<mapsto> assistantDesc) \<rparr>)
         \<and> handleVAPIWebhook oai vapiPhoneNumber (Some payload) w
           = handleVAPIWebhook oai vapiPhoneNumber
               (Some (payload\<lparr> Payload_Message :=
                  (Payload_Message payload)\<lparr> Message_ToolCalls := before @ [toolCall] \<rparr> \<rparr>)) w"
proof -
  let ?P = "\<lambda>t. Function_Name (ToolCall_Function t) = ''createAssistant''
                \<and> Arguments_Assistant (Function_Arguments (ToolCall_Function t)) \<noteq> None"
  have P: "?P toolCall" using assms(6,7) by simp
  have f1: "find ?P (before @ toolCall # after) = Some toolCall"
    using assms(5) P by (rule find_first_match)
  have f2: "find ?P (before @ toolCall # []) = Some toolCall"
    using assms(5) P by (rule find_first_match)
  show ?thesis
    using assms(1,2,3,4,7) f1 f2
    by (simp add: handleVAPIWebhook_def Let_def toolCallsLoop_find cachePut_def)
qed

theorem first_complete_call_only_witness:
  "handleVAPIWebhook failedCompletion ''+15550009999''
     (Some (toolCallsEvent (Some ''+15551230000'')
        [createAssistantCall ''call_1'' None,
         createAssistantCall ''call_2'' (Some ''a pirate''),
         createAssistantCall ''call_3'' (Some ''a ninja'')]))
     emptyWorld
     = (Inr (JSONMap
          [ (''results'',
             GList [GMap [ (''toolCallId'', GString ''call_2''),
                           (''result'', GString ''Assistant created successfully'') ]]) ]),
        emptyWorld\<lparr> phoneToAssistantCache := [''+15551230000'' \<mapsto> ''a pirate''] \<rparr>)"
  using first_complete_call_only
          [of "toolCallsEvent (Some ''+15551230000'')
                 [createAssistantCall ''call_1'' None,
                  createAssistantCall ''call_2'' (Some ''a pirate''),
                  createAssistantCall ''call_3'' (Some ''a ninja'')]"
              "\<lparr> Customer_Name = None, Customer_Number = Some ''+15551230000'' \<rparr>"
              "''+15551230000''"
              "[createAssistantCall ''call_1'' None]"
              "createAssistantCall ''call_2'' (Some ''a pirate'')"
              "[createAssistantCall ''call_3'' (Some ''a ninja'')]"
              "''a pirate''"
              failedCompletion "''+15550009999''" emptyWorld]
  by (simp add: toolCallsEvent_def createAssistantCall_def emptyWorld_def)

section \<open>The handler on the other events\<close>

text \<open>An \<open>assistant-request\<close> event without a call record panics at line 226.\<close>

lemma assistant_request_nil_call_panics:
  assumes "Message_Type (Payload_Message payload) = ''assistant-request''"
      and "Message_Call (Payload_Message payload) = None"
  shows "handleVAPIWebhook oai vapiPhoneNumber (Some payload) w = (Inl NilPointerDereference, w)"
  using assms by (simp add: handleVAPIWebhook_def Let_def)

text \<open>
  Claim C2. On an \<open>assistant-request\<close> event that parses and has a customer number but no
  \<open>call\<close> record, the handler does not answer with status 200: reading
  \<open>payload.Message.Call.ID\<close> at line 226 dereferences the nil pointer, and the handler
  panics before \<open>getOrCreateAssistant\<close> is called.
\<close>

theorem assistant_request_without_call_panics:
  "handleVAPIWebhook failedCompletion ''+15550009999''
     (Some \<lparr> Payload_Message =
              \<lparr> Message_Type = ''assistant-request'', Message_ToolCalls = [],
                Message_Call = None,
                Message_Customer =
                  Some \<lparr> Customer_Name = None, Customer_Number = Some ''+15551230000'' \<rparr> \<rparr> \<rparr>)
     emptyWorld
     = (Inl NilPointerDereference, emptyWorld)"
  by (simp add: handleVAPIWebhook_def)

lemma assistant_request_with_call_responds:
  assumes "Message_Type (Payload_Message payload) = ''assistant-request''"
      and "Message_Call (Payload_Message payload) = Some call"
      and "Message_Customer (Payload_Message payload) = None"
      and "phoneToAssistantCache w '''' = None"
  shows "handleVAPIWebhook oai vapiPhoneNumber (Some payload) w
           = (Inr (JSONAssistant
                \<lparr> Response_Assistant = Some (createInitialAssistant vapiPhoneNumber) \<rparr>), w)"
  using assms
  by (simp add: handleVAPIWebhook_def Let_def getOrCreateAssistant_def cacheGet_def)

lemma unparsed_body_rejected:
  "handleVAPIWebhook oai vapiPhoneNumber None w = (Inr (SendStatus 400), w)"
  by (simp add: handleVAPIWebhook_def)

lemma other_event_type_acknowledged:
  assumes "Message_Type (Payload_Message payload) \<noteq> ''assistant-request''"
      and "Message_Type (Payload_Message payload) \<noteq> ''tool-calls''"
  shows "handleVAPIWebhook oai vapiPhoneNumber (Some payload) w = (Inr (SendStatus 200), w)"
  using assms by (simp add: handleVAPIWebhook_def Let_def)

end
